theory Spec2Isabelle
  imports Complex_Main "HOL-Library.Multiset"
begin

text \<open>
  A model of the server of the top-up simulator: the handlers \<^verbatim>\<open>processTopUp\<close>,
  \<^verbatim>\<open>walletDeposit\<close>, \<^verbatim>\<open>getUserById\<close> and \<^verbatim>\<open>getUserTransactions\<close>, the input
  schemas the router puts in front of them, and the three tables they read and
  write. A handler is a function from the database (and what it reads from the
  clock and from \<^verbatim>\<open>Math.random()\<close>) to its result, an error or a value, and
  the database it leaves.
\<close>

section \<open>Data model\<close>

text \<open>
  The enums of \<^verbatim>\<open>db/schema.ts\<close> (\<^verbatim>\<open>pgEnum\<close>) and of the zod schemas in
  \<^verbatim>\<open>schema.ts\<close>, with the source's spelling.
\<close>

datatype transaction_type = topup | wallet_deposit | wallet_withdrawal

datatype transaction_status = pending | completed | failed | cancelled

datatype payment_method = wallet | payment_gateway

text \<open>
  Numbers. A JavaScript \<^verbatim>\<open>number\<close> is modelled as an exact real (the binary
  rounding of doubles is not modelled). A \<^verbatim>\<open>numeric(10, 2)\<close> column holds a whole
  number of hundredths: the model stores that integer, so the stored value
  \<^verbatim>\<open>'100.00'\<close> is \<open>10000\<close>. Timestamps are milliseconds, as \<^verbatim>\<open>Date.now()\<close> counts them.
\<close>

type_synonym number = real

type_synonym numeric_10_2 = int

type_synonym timestamp = nat

text \<open>
  Rows and API objects share their fields; they differ in the type of the money
  field (\<open>'n\<close>): the column's \<open>numeric_10_2\<close> in a row, a \<open>number\<close> in the object a
  handler returns. Field names carry a table prefix (\<open>u_\<close>, \<open>p_\<close>, \<open>t_\<close>) because
  the tables share column names; after the prefix they are the source's.
\<close>

record 'n user =
  u_id :: int
  u_email :: string
  u_name :: string
  u_phone :: string
  u_wallet_balance :: 'n
  u_created_at :: timestamp
  u_updated_at :: timestamp

text \<open>
  Of \<^verbatim>\<open>service_products\<close> the model keeps the columns that identify a product
  and those the handlers read; \<^verbatim>\<open>description\<close>, \<^verbatim>\<open>type\<close>, \<^verbatim>\<open>provider\<close> and the
  timestamps are read by no handler modelled here.
\<close>

record 'n service_product =
  p_id :: int
  p_category_id :: int
  p_product_code :: string
  p_name :: string
  p_price :: 'n
  p_is_active :: bool

record 'n transaction_rec =
  t_id :: int
  t_user_id :: int
  t_transaction_type :: transaction_type
  t_amount :: 'n
  t_status :: transaction_status
  t_payment_method :: payment_method
  t_reference_id :: "string option"
  t_product_id :: "int option"
  t_target_number :: "string option"
  t_digiflazz_reference :: "string option"
  t_created_at :: timestamp
  t_updated_at :: timestamp

type_synonym users_row = "numeric_10_2 user"
type_synonym User = "number user"
type_synonym service_products_row = "numeric_10_2 service_product"
type_synonym transactions_row = "numeric_10_2 transaction_rec"
type_synonym Transaction = "number transaction_rec"

text \<open>The database: its three tables, each a list of rows in table order.\<close>

record database =
  usersTable :: "users_row list"
  serviceProductsTable :: "service_products_row list"
  transactionsTable :: "transactions_row list"

text \<open>
  The inputs of the handlers (\<^verbatim>\<open>TopUpInput\<close>, \<^verbatim>\<open>WalletDepositInput\<close>,
  \<^verbatim>\<open>GetUserByIdInput\<close>, \<^verbatim>\<open>GetUserTransactionsInput\<close>), prefixed per input type.
  \<^verbatim>\<open>limit\<close> and \<^verbatim>\<open>offset\<close> are optional; the schema makes them a positive and
  a non-negative integer. Ids are integers, as the \<^verbatim>\<open>serial\<close> and \<^verbatim>\<open>integer\<close>
  columns they are compared with.
\<close>

record TopUpInput =
  tu_user_id :: int
  tu_product_id :: int
  tu_target_number :: string
  tu_payment_method :: payment_method

record WalletDepositInput =
  wd_user_id :: int
  wd_amount :: number
  wd_payment_method :: payment_method

record GetUserByIdInput =
  gu_user_id :: int

record GetUserTransactionsInput =
  gt_user_id :: int
  gt_limit :: "nat option"
  gt_offset :: "nat option"

text \<open>
  What a call reads from outside the database: the clock (\<^verbatim>\<open>Date.now()\<close>,
  \<^verbatim>\<open>new Date()\<close> and the database's \<^verbatim>\<open>now()\<close>, one reading per call) and the draw of
  \<^verbatim>\<open>Math.random()\<close> that stands for the Digiflazz API.
\<close>

record env =
  now :: timestamp
  random :: number

text \<open>
  Everything a call can throw. \<open>ProductNotFoundOrInactive\<close>, \<open>UserNotFound\<close> and
  \<open>InsufficientWalletBalance\<close> are the three \<^verbatim>\<open>Error\<close>s of \<^verbatim>\<open>processTopUp\<close>;
  \<open>UserWithIdNotFound\<close> is the one of \<^verbatim>\<open>walletDeposit\<close>; \<open>NumericFieldOverflow\<close> is
  the database refusing a value that does not fit \<^verbatim>\<open>numeric(10, 2)\<close>; \<open>TypeError\<close> is
  JavaScript reading a property of \<^verbatim>\<open>undefined\<close> (the element \<^verbatim>\<open>[0]\<close> of an empty
  result); \<open>ZodError\<close> is an input schema rejecting a request.
\<close>

datatype zod_issue = too_small string | invalid_enum_value string

datatype error =
    ProductNotFoundOrInactive
  | UserNotFound
  | InsufficientWalletBalance
  | UserWithIdNotFound int
  | NumericFieldOverflow
  | TypeError
  | ZodError "zod_issue list"

section \<open>Numbers and strings\<close>

text \<open>\<^verbatim>\<open>n.toString()\<close> for a non-negative integer: its decimal digits.\<close>

definition digit_char :: "nat \<Rightarrow> char" where
  "digit_char d = ''0123456789'' ! d"

function string_of_nat :: "nat \<Rightarrow> string" where
  "string_of_nat n =
     (if n < 10 then [digit_char n]
      else string_of_nat (n div 10) @ [digit_char (n mod 10)])"
  by pat_completeness auto
termination
  by (relation "measure id") auto

declare string_of_nat.simps [simp del]

text \<open>
  \<^verbatim>\<open>parseFloat\<close> of a value read from a \<^verbatim>\<open>numeric(10, 2)\<close> column: the stored
  hundredths as a number.
\<close>

definition parseFloat :: "numeric_10_2 \<Rightarrow> number" where
  "parseFloat c = of_int c / 100"

text \<open>
  Writing \<^verbatim>\<open>x.toString()\<close> into a \<^verbatim>\<open>numeric(10, 2)\<close> column: PostgreSQL rounds
  to two fractional digits, ties away from zero, and refuses the value when the
  rounded value has more than eight digits before the point.
\<close>

definition round_half_away :: "real \<Rightarrow> int" where
  "round_half_away x = (if 0 \<le> x then \<lfloor>x + 1 / 2\<rfloor> else - \<lfloor>- x + 1 / 2\<rfloor>)"

definition to_numeric_10_2 :: "number \<Rightarrow> error + numeric_10_2" where
  "to_numeric_10_2 x =
     (let c = round_half_away (x * 100)
      in if 10 ^ 10 \<le> \<bar>c\<bar> then Inl NumericFieldOverflow else Inr c)"

text \<open>The range of a \<^verbatim>\<open>numeric(10, 2)\<close> column, in hundredths.\<close>

definition in_numeric_10_2 :: "int \<Rightarrow> bool" where
  "in_numeric_10_2 c \<longleftrightarrow> \<bar>c\<bar> < 10 ^ 10"

section \<open>Database operations\<close>

text \<open>The object a handler returns for a row: the money column parsed.\<close>

definition to_Transaction :: "transactions_row \<Rightarrow> Transaction" where
  "to_Transaction r =
     \<lparr> t_id = t_id r, t_user_id = t_user_id r,
       t_transaction_type = t_transaction_type r,
       t_amount = parseFloat (t_amount r),
       t_status = t_status r, t_payment_method = t_payment_method r,
       t_reference_id = t_reference_id r, t_product_id = t_product_id r,
       t_target_number = t_target_number r,
       t_digiflazz_reference = t_digiflazz_reference r,
       t_created_at = t_created_at r, t_updated_at = t_updated_at r \<rparr>"

definition to_User :: "users_row \<Rightarrow> User" where
  "to_User r =
     \<lparr> u_id = u_id r, u_email = u_email r, u_name = u_name r, u_phone = u_phone r,
       u_wallet_balance = parseFloat (u_wallet_balance r),
       u_created_at = u_created_at r, u_updated_at = u_updated_at r \<rparr>"

text \<open>
  \<^verbatim>\<open>serial('id')\<close>: ids are handed out in increasing order. The model takes one
  more than the largest id in the table, which is what the sequence gives on a
  table filled through it.
\<close>

definition next_serial :: "transactions_row list \<Rightarrow> int" where
  "next_serial rows = fold max (map t_id rows) 0 + 1"

text \<open>
  \<^verbatim>\<open>db.insert(transactionsTable).values({...}).returning()\<close>: the amount goes into
  its column, the id and both timestamps take their defaults, and the new row
  is returned. A value that does not fit the column makes the insert throw.
\<close>

definition insert_transaction ::
  "env \<Rightarrow> int \<Rightarrow> transaction_type \<Rightarrow> number \<Rightarrow> transaction_status \<Rightarrow> payment_method \<Rightarrow>
   string option \<Rightarrow> int option \<Rightarrow> string option \<Rightarrow> string option \<Rightarrow> database \<Rightarrow>
   error + (transactions_row \<times> database)" where
  "insert_transaction e uid ty amount st pm reference_id product_id target_number dgf db =
     (case to_numeric_10_2 amount of
        Inl err \<Rightarrow> Inl err
      | Inr c \<Rightarrow>
          let row = \<lparr> t_id = next_serial (transactionsTable db), t_user_id = uid,
                      t_transaction_type = ty, t_amount = c, t_status = st,
                      t_payment_method = pm, t_reference_id = reference_id,
                      t_product_id = product_id, t_target_number = target_number,
                      t_digiflazz_reference = dgf,
                      t_created_at = now e, t_updated_at = now e \<rparr>
          in Inr (row, db\<lparr>transactionsTable := transactionsTable db @ [row]\<rparr>))"

text \<open>
  \<^verbatim>\<open>db.update(usersTable).set({wallet_balance, updated_at}).where(eq(id, uid))\<close>:
  every row with that id is rewritten; the statement throws when the balance does
  not fit the column.
\<close>

definition update_wallet_balance ::
  "int \<Rightarrow> number \<Rightarrow> timestamp \<Rightarrow> database \<Rightarrow> error + database" where
  "update_wallet_balance uid newBalance updated_at db =
     (case to_numeric_10_2 newBalance of
        Inl err \<Rightarrow> Inl err
      | Inr c \<Rightarrow>
          Inr (db\<lparr>usersTable :=
                 map (\<lambda>u. if u_id u = uid
                           then u\<lparr>u_wallet_balance := c, u_updated_at := updated_at\<rparr> else u)
                   (usersTable db)\<rparr>))"

text \<open>
  \<^verbatim>\<open>db.update(transactionsTable).set(...).where(eq(id, tid)).returning()\<close>: the
  rows with that id are rewritten by \<open>f\<close> and returned.
\<close>

definition update_transaction ::
  "int \<Rightarrow> (transactions_row \<Rightarrow> transactions_row) \<Rightarrow> database \<Rightarrow>
   transactions_row list \<times> database" where
  "update_transaction tid f db =
     (map f [t \<leftarrow> transactionsTable db. t_id t = tid],
      db\<lparr>transactionsTable :=
           map (\<lambda>t. if t_id t = tid then f t else t) (transactionsTable db)\<rparr>)"

section \<open>The handlers\<close>

subsection \<open>processTopUp\<close>

text \<open>
  \<^verbatim>\<open>processTopUp\<close>, steps 1 and 2: the product is looked up among the active
  ones, then the user, and for a wallet payment the balance is compared with the
  price. Each failed check throws; otherwise the price read here is what the
  rest of the call works with.
\<close>

definition processTopUp_validate :: "TopUpInput \<Rightarrow> database \<Rightarrow> error + number" where
  "processTopUp_validate input db =
     (case [p \<leftarrow> serviceProductsTable db. p_id p = tu_product_id input \<and> p_is_active p = True] of
        [] \<Rightarrow> Inl ProductNotFoundOrInactive
      | product # _ \<Rightarrow>
          let productPrice = parseFloat (p_price product) in
          if tu_payment_method input = wallet then
            (case [u \<leftarrow> usersTable db. u_id u = tu_user_id input] of
               [] \<Rightarrow> Inl UserNotFound
             | user # _ \<Rightarrow>
                 let userBalance = parseFloat (u_wallet_balance user) in
                 if userBalance < productPrice then Inl InsufficientWalletBalance
                 else Inr productPrice)
          else
            (case [u \<leftarrow> usersTable db. u_id u = tu_user_id input] of
               [] \<Rightarrow> Inl UserNotFound
             | _ # _ \<Rightarrow> Inr productPrice))"

text \<open>
  Step 5 of \<^verbatim>\<open>processTopUp\<close>: the balance is read again and the price taken off
  it. Nothing is compared here: the new balance is written as computed.
\<close>

definition deduct_from_wallet :: "env \<Rightarrow> TopUpInput \<Rightarrow> number \<Rightarrow> database \<Rightarrow> error + database" where
  "deduct_from_wallet e input productPrice db =
     (case [u \<leftarrow> usersTable db. u_id u = tu_user_id input] of
        [] \<Rightarrow> Inl TypeError
      | currentUser # _ \<Rightarrow>
          let currentBalance = parseFloat (u_wallet_balance currentUser);
              newBalance = currentBalance - productPrice
          in update_wallet_balance (tu_user_id input) newBalance (now e) db)"

text \<open>
  Steps 3 to 6: the pending row is inserted, the Digiflazz call is simulated
  (\<^verbatim>\<open>Math.random() > 0.1\<close>), a successful wallet payment is deducted, and the row
  gets its final status and the Digiflazz reference. A throw leaves the database
  as the statements before it made it (the handler opens no database
  transaction).
\<close>

definition processTopUp_execute ::
  "env \<Rightarrow> TopUpInput \<Rightarrow> number \<Rightarrow> database \<Rightarrow> (error + Transaction) \<times> database" where
  "processTopUp_execute e input productPrice db =
     (case insert_transaction e (tu_user_id input) topup productPrice pending
             (tu_payment_method input)
             (if tu_payment_method input = payment_gateway
              then Some (''PAY_'' @ string_of_nat (now e)) else None)
             (Some (tu_product_id input)) (Some (tu_target_number input)) None db of
        Inl err \<Rightarrow> (Inl err, db)
      | Inr (transaction, db1) \<Rightarrow>
          let digiflazzReference = ''DGF_'' @ string_of_nat (now e);
              isApiSuccess = (random e > 1 / 10);
              finalStatus = (if isApiSuccess then completed else failed)
          in
          (case (if tu_payment_method input = wallet \<and> isApiSuccess
                 then deduct_from_wallet e input productPrice db1 else Inr db1) of
             Inl err \<Rightarrow> (Inl err, db1)
           | Inr db2 \<Rightarrow>
               (case update_transaction (t_id transaction)
                       (\<lambda>t. t\<lparr>t_status := finalStatus,
                               t_digiflazz_reference := Some digiflazzReference,
                               t_updated_at := now e\<rparr>) db2 of
                  ([], db3) \<Rightarrow> (Inl TypeError, db3)
                | (finalTransaction # _, db3) \<Rightarrow> (Inr (to_Transaction finalTransaction), db3))))"

text \<open>The handler, run with no other request in between.\<close>

definition processTopUp :: "env \<Rightarrow> TopUpInput \<Rightarrow> database \<Rightarrow> (error + Transaction) \<times> database" where
  "processTopUp e input db =
     (case processTopUp_validate input db of
        Inl err \<Rightarrow> (Inl err, db)
      | Inr productPrice \<Rightarrow> processTopUp_execute e input productPrice db)"

text \<open>
  The handler awaits every database statement, so other requests can run
  between its balance check and its deduction. \<open>others\<close> is what they did to the
  database in the meantime; the call goes on from there with the price it read.
\<close>

definition processTopUp_interleaved ::
  "env \<Rightarrow> TopUpInput \<Rightarrow> (database \<Rightarrow> database) \<Rightarrow> database \<Rightarrow> (error + Transaction) \<times> database" where
  "processTopUp_interleaved e input others db =
     (case processTopUp_validate input db of
        Inl err \<Rightarrow> (Inl err, db)
      | Inr productPrice \<Rightarrow> processTopUp_execute e input productPrice (others db))"

subsection \<open>walletDeposit\<close>

text \<open>
  \<^verbatim>\<open>walletDeposit\<close>: the user is looked up, the pending row inserted, and since
  \<^verbatim>\<open>paymentSuccess\<close> is the constant \<^verbatim>\<open>true\<close> the balance read in step 1 is raised
  by the amount and the row completed. The handler itself does not look at the
  sign of the amount.
\<close>

definition walletDeposit ::
  "env \<Rightarrow> WalletDepositInput \<Rightarrow> database \<Rightarrow> (error + Transaction) \<times> database" where
  "walletDeposit e input db =
     (case [u \<leftarrow> usersTable db. u_id u = wd_user_id input] of
        [] \<Rightarrow> (Inl (UserWithIdNotFound (wd_user_id input)), db)
      | currentUser # _ \<Rightarrow>
          let referenceId = ''PAY_'' @ string_of_nat (now e) in
          (case insert_transaction e (wd_user_id input) wallet_deposit (wd_amount input) pending
                  (wd_payment_method input) (Some referenceId) None None None db of
             Inl err \<Rightarrow> (Inl err, db)
           | Inr (transaction, db1) \<Rightarrow>
               let paymentSuccess = True in
               if paymentSuccess then
                 (let currentBalance = parseFloat (u_wallet_balance currentUser);
                      newBalance = currentBalance + wd_amount input
                  in case update_wallet_balance (wd_user_id input) newBalance (now e) db1 of
                       Inl err \<Rightarrow> (Inl err, db1)
                     | Inr db2 \<Rightarrow>
                         (case update_transaction (t_id transaction)
                                 (\<lambda>t. t\<lparr>t_status := completed, t_updated_at := now e\<rparr>) db2 of
                            ([], db3) \<Rightarrow> (Inl TypeError, db3)
                          | (completedTransaction # _, db3) \<Rightarrow>
                              (Inr (to_Transaction completedTransaction), db3)))
               else
                 (case update_transaction (t_id transaction)
                         (\<lambda>t. t\<lparr>t_status := failed, t_updated_at := now e\<rparr>) db1 of
                    ([], db3) \<Rightarrow> (Inl TypeError, db3)
                  | (failedTransaction # _, db3) \<Rightarrow>
                      (Inr (to_Transaction failedTransaction), db3))))"

subsection \<open>The input schemas and the procedures\<close>

text \<open>
  \<^verbatim>\<open>walletDepositInputSchema\<close> and \<^verbatim>\<open>topUpInputSchema\<close>: zod collects one issue per
  field that fails, in the order of the fields, and throws when there is one.
  The router runs the schema first (\<^verbatim>\<open>publicProcedure.input(schema).mutation(...)\<close>);
  the handler is called only with an input the schema accepted.
\<close>

definition walletDepositInputSchema :: "WalletDepositInput \<Rightarrow> error + WalletDepositInput" where
  "walletDepositInputSchema input =
     (let issues =
            (if 0 < wd_amount input then [] else [too_small ''amount'']) @
            (if wd_payment_method input = payment_gateway then []
             else [invalid_enum_value ''payment_method''])
      in if issues = [] then Inr input else Inl (ZodError issues))"

definition topUpInputSchema :: "TopUpInput \<Rightarrow> error + TopUpInput" where
  "topUpInputSchema input =
     (let issues = (if 10 \<le> length (tu_target_number input) then [] else [too_small ''target_number''])
      in if issues = [] then Inr input else Inl (ZodError issues))"

definition walletDeposit_procedure ::
  "env \<Rightarrow> WalletDepositInput \<Rightarrow> database \<Rightarrow> (error + Transaction) \<times> database" where
  "walletDeposit_procedure e raw db =
     (case walletDepositInputSchema raw of
        Inl err \<Rightarrow> (Inl err, db)
      | Inr input \<Rightarrow> walletDeposit e input db)"

definition processTopUp_procedure ::
  "env \<Rightarrow> TopUpInput \<Rightarrow> database \<Rightarrow> (error + Transaction) \<times> database" where
  "processTopUp_procedure e raw db =
     (case topUpInputSchema raw of
        Inl err \<Rightarrow> (Inl err, db)
      | Inr input \<Rightarrow> processTopUp e input db)"

subsection \<open>getUserById and getUserTransactions\<close>

definition getUserById :: "GetUserByIdInput \<Rightarrow> database \<Rightarrow> User option" where
  "getUserById input db =
     (case [u \<leftarrow> usersTable db. u_id u = gu_user_id input] of
        [] \<Rightarrow> None
      | user # _ \<Rightarrow> Some (to_User user))"

text \<open>
  \<^verbatim>\<open>orderBy(desc(created_at))\<close>: the rows sorted by falling creation time. The
  query names no second sort key, so SQL leaves the order of rows with equal
  \<^verbatim>\<open>created_at\<close> to the executor, and it may differ from one execution to the
  next. \<open>tie\<close> is the executor's choice in one execution: among rows with equal
  \<^verbatim>\<open>created_at\<close> those with the smaller \<open>tie\<close> come first. Every call of the
  handler takes its own \<open>tie\<close>, as every call of \<^verbatim>\<open>processTopUp\<close> takes its own draw
  of \<^verbatim>\<open>Math.random()\<close>.
\<close>

type_synonym tie_break = "transactions_row \<Rightarrow> int"

definition order_by_desc_created_at ::
  "tie_break \<Rightarrow> transactions_row list \<Rightarrow> transactions_row list" where
  "order_by_desc_created_at tie rows =
     sort_key (\<lambda>t. - int (t_created_at t)) (sort_key tie rows)"

definition getUserTransactions ::
  "tie_break \<Rightarrow> GetUserTransactionsInput \<Rightarrow> database \<Rightarrow> Transaction list" where
  "getUserTransactions tie input db =
     (let limit = (case gt_limit input of None \<Rightarrow> 10 | Some l \<Rightarrow> l);
          offset = (case gt_offset input of None \<Rightarrow> 0 | Some off \<Rightarrow> off);
          results =
            take limit (drop offset
              (order_by_desc_created_at tie
                 [t \<leftarrow> transactionsTable db. t_user_id t = gt_user_id input]))
      in map to_Transaction results)"

text \<open>
  The place of a row in a list: the number of rows in front of its first
  occurrence. As a \<open>tie\<close> it makes the executor return the rows in the order of
  that list.
\<close>

definition position :: "'a list \<Rightarrow> 'a \<Rightarrow> int" where
  "position xs x = int (length (takeWhile (\<lambda>y. y \<noteq> x) xs))"

section \<open>The balance invariant\<close>

text \<open>No stored wallet balance is negative.\<close>

definition balances_nonnegative :: "database \<Rightarrow> bool" where
  "balances_nonnegative db \<longleftrightarrow> (\<forall>u \<in> set (usersTable db). 0 \<le> u_wallet_balance u)"

section \<open>Concrete states\<close>

text \<open>
  The state the repository's own test for \<^verbatim>\<open>processTopUp\<close> sets up
  (\<^verbatim>\<open>createTestData\<close>): a user with 100000.00, a user with 5000.00, an active
  product at 10000.00 and an inactive one at 20000.00. The two environments make
  the simulated API succeed (\<^verbatim>\<open>Math.random()\<close> gives 0.95) and fail (0.05).
\<close>

definition test_user :: users_row where
  "test_user = \<lparr> u_id = 1, u_email = ''test@example.com'', u_name = ''Test User'',
       u_phone = ''08123456789'', u_wallet_balance = 10000000,
       u_created_at = 0, u_updated_at = 0 \<rparr>"

definition test_lowBalanceUser :: users_row where
  "test_lowBalanceUser = \<lparr> u_id = 2, u_email = ''lowbalance@example.com'',
       u_name = ''Low Balance User'', u_phone = ''08987654321'',
       u_wallet_balance = 500000, u_created_at = 0, u_updated_at = 0 \<rparr>"

definition test_activeProduct :: service_products_row where
  "test_activeProduct = \<lparr> p_id = 1, p_category_id = 1, p_product_code = ''TSEL_10K'',
       p_name = ''Telkomsel 10,000'', p_price = 1000000, p_is_active = True \<rparr>"

definition test_inactiveProduct :: service_products_row where
  "test_inactiveProduct = \<lparr> p_id = 2, p_category_id = 1, p_product_code = ''XL_20K'',
       p_name = ''XL 20,000'', p_price = 2000000, p_is_active = False \<rparr>"

definition test_db :: database where
  "test_db = \<lparr> usersTable = [test_user, test_lowBalanceUser],
       serviceProductsTable = [test_activeProduct, test_inactiveProduct],
       transactionsTable = [] \<rparr>"

definition api_success :: env where
  "api_success = \<lparr> now = 7, random = 95 / 100 \<rparr>"

definition api_failure :: env where
  "api_failure = \<lparr> now = 7, random = 5 / 100 \<rparr>"

definition test_topup :: "int \<Rightarrow> int \<Rightarrow> payment_method \<Rightarrow> TopUpInput" where
  "test_topup uid pid pm = \<lparr> tu_user_id = uid, tu_product_id = pid,
       tu_target_number = ''08123456789'', tu_payment_method = pm \<rparr>"

definition test_deposit :: "int \<Rightarrow> number \<Rightarrow> WalletDepositInput" where
  "test_deposit uid amount = \<lparr> wd_user_id = uid, wd_amount = amount,
       wd_payment_method = payment_gateway \<rparr>"

text \<open>
  A second \<^verbatim>\<open>processTopUp\<close> request, as what it does to the database while the
  first one waits, and a state in which the user can pay for the product once
  but not twice (15000.00 against a price of 10000.00).
\<close>

definition concurrent_processTopUp :: "env \<Rightarrow> TopUpInput \<Rightarrow> database \<Rightarrow> database" where
  "concurrent_processTopUp e input db = snd (processTopUp e input db)"

definition tight_user :: users_row where
  "tight_user = \<lparr> u_id = 1, u_email = ''test@example.com'', u_name = ''Test User'',
       u_phone = ''08123456789'', u_wallet_balance = 1500000,
       u_created_at = 0, u_updated_at = 0 \<rparr>"

definition tight_db :: database where
  "tight_db = \<lparr> usersTable = [tight_user],
       serviceProductsTable = [test_activeProduct, test_inactiveProduct],
       transactionsTable = [] \<rparr>"

text \<open>A user whose balance is the largest the column holds, 99999999.99.\<close>

definition rich_user :: users_row where
  "rich_user = \<lparr> u_id = 1, u_email = ''test@example.com'', u_name = ''Test User'',
       u_phone = ''08123456789'', u_wallet_balance = 9999999999,
       u_created_at = 0, u_updated_at = 0 \<rparr>"

definition rich_db :: database where
  "rich_db = \<lparr> usersTable = [rich_user], serviceProductsTable = [],
       transactionsTable = [] \<rparr>"

text \<open>
  A transaction history as the test of \<^verbatim>\<open>getUserTransactions\<close> builds it: three
  transactions of user 1, inserted oldest first, and one of user 2 in between.
\<close>

definition history_row ::
  "int \<Rightarrow> int \<Rightarrow> transaction_type \<Rightarrow> numeric_10_2 \<Rightarrow> timestamp \<Rightarrow> transactions_row" where
  "history_row tid uid ty amount created =
     \<lparr> t_id = tid, t_user_id = uid, t_transaction_type = ty, t_amount = amount,
       t_status = completed, t_payment_method = payment_gateway, t_reference_id = None,
       t_product_id = None, t_target_number = None, t_digiflazz_reference = None,
       t_created_at = created, t_updated_at = created \<rparr>"

definition history_db :: database where
  "history_db = \<lparr> usersTable = [test_user, test_lowBalanceUser],
       serviceProductsTable = [],
       transactionsTable =
         [history_row 1 1 wallet_deposit 5000 100,
          history_row 2 2 wallet_deposit 7500 150,
          history_row 3 1 wallet_withdrawal 2500 200,
          history_row 4 1 wallet_deposit 10000 300] \<rparr>"

definition history_query :: "int \<Rightarrow> nat option \<Rightarrow> nat option \<Rightarrow> GetUserTransactionsInput" where
  "history_query uid limit offset = \<lparr> gt_user_id = uid, gt_limit = limit, gt_offset = offset \<rparr>"

text \<open>
  The rows another test of \<^verbatim>\<open>getUserTransactions\<close> stores with one insert and no
  \<^verbatim>\<open>created_at\<close>, so that all three carry the same timestamp: transactions 1
  and 3 of user 1 and transaction 2 of user 2. \<open>t_id\<close> lists equal timestamps by
  rising id, \<open>falling_id\<close> by falling id.
\<close>

definition tied_history_db :: database where
  "tied_history_db = \<lparr> usersTable = [test_user, test_lowBalanceUser],
       serviceProductsTable = [],
       transactionsTable =
         [history_row 1 1 wallet_deposit 5000 100,
          history_row 2 2 wallet_deposit 7500 100,
          history_row 3 1 wallet_withdrawal 2500 100] \<rparr>"

definition falling_id :: tie_break where
  "falling_id t = - t_id t"

text \<open>A user with twelve transactions, inserted oldest first.\<close>

definition long_history_db :: database where
  "long_history_db = \<lparr> usersTable = [test_user],
       serviceProductsTable = [],
       transactionsTable =
         [history_row 1 1 wallet_deposit 1000 10,
          history_row 2 1 wallet_deposit 1000 20,
          history_row 3 1 wallet_deposit 1000 30,
          history_row 4 1 wallet_deposit 1000 40,
          history_row 5 1 wallet_deposit 1000 50,
          history_row 6 1 wallet_deposit 1000 60,
          history_row 7 1 wallet_deposit 1000 70,
          history_row 8 1 wallet_deposit 1000 80,
          history_row 9 1 wallet_deposit 1000 90,
          history_row 10 1 wallet_deposit 1000 100,
          history_row 11 1 wallet_deposit 1000 110,
          history_row 12 1 wallet_deposit 1000 120] \<rparr>"

lemmas test_defs = tied_history_db_def falling_id_def rich_db_def rich_user_def long_history_db_def history_query_def history_db_def history_row_def tight_db_def tight_user_def test_db_def test_user_def test_lowBalanceUser_def test_activeProduct_def
  test_inactiveProduct_def api_success_def api_failure_def test_topup_def test_deposit_def

section \<open>Facts about numbers, ids and updates\<close>

lemma round_half_away_of_int: "round_half_away (of_int c) = c"
  by (simp add: round_half_away_def)

lemma round_half_away_nonneg: "0 \<le> x \<Longrightarrow> 0 \<le> round_half_away x"
  by (simp add: round_half_away_def)

lemma parseFloat_times_100: "parseFloat c * 100 = of_int c"
  by (simp add: parseFloat_def)

lemma to_numeric_parseFloat: "in_numeric_10_2 c \<Longrightarrow> to_numeric_10_2 (parseFloat c) = Inr c"
  by (simp add: to_numeric_10_2_def in_numeric_10_2_def parseFloat_times_100 round_half_away_of_int)

lemma parseFloat_diff: "parseFloat a - parseFloat b = parseFloat (a - b)"
  by (simp add: parseFloat_def diff_divide_distrib)

lemma parseFloat_sum: "parseFloat a + parseFloat b = parseFloat (a + b)"
  by (simp add: parseFloat_def add_divide_distrib)

lemma parseFloat_less_iff: "parseFloat a < parseFloat b \<longleftrightarrow> a < b"
  by (simp add: parseFloat_def divide_less_cancel)

lemma to_numeric_nonneg: "0 \<le> x \<Longrightarrow> to_numeric_10_2 x = Inr c \<Longrightarrow> 0 \<le> c"
  by (auto simp: to_numeric_10_2_def Let_def round_half_away_nonneg split: if_splits)

lemma fold_max_ge: "(m::int) \<le> fold max xs m"
  by (induction xs arbitrary: m) (auto intro: order_trans[OF max.cobounded2])

lemma fold_max_mem: "x \<in> set xs \<Longrightarrow> (x::int) \<le> fold max xs m"
proof (induction xs arbitrary: m)
  case Nil
  then show ?case by simp
next
  case (Cons y ys)
  show ?case
  proof (cases "x = y")
    case True
    have "x \<le> max y m" using True by simp
    also have "\<dots> \<le> fold max ys (max y m)" by (rule fold_max_ge)
    finally show ?thesis by simp
  next
    case False
    with Cons show ?thesis by simp
  qed
qed

lemma next_serial_fresh: "t \<in> set rows \<Longrightarrow> t_id t < next_serial rows"
  using fold_max_mem[of "t_id t" "map t_id rows" 0] by (simp add: next_serial_def)

lemma filter_next_serial: "[t \<leftarrow> rows. t_id t = next_serial rows] = []"
  using next_serial_fresh by (fastforce simp: filter_empty_conv)

lemma map_next_serial:
  "map (\<lambda>t. if t_id t = next_serial rows then f t else t) rows = rows"
  using next_serial_fresh by (fastforce intro: map_idI)

lemma filter_updated_users:
  "[u \<leftarrow> map (\<lambda>u. if u_id u = uid
                    then u\<lparr>u_wallet_balance := c, u_updated_at := ts\<rparr> else u) rows.
      u_id u = uid]
   = map (\<lambda>u. u\<lparr>u_wallet_balance := c, u_updated_at := ts\<rparr>) [u \<leftarrow> rows. u_id u = uid]"
  by (induction rows) auto

lemma insert_transaction_ok:
  assumes "in_numeric_10_2 c"
  shows "insert_transaction e uid ty (parseFloat c) st pm r p tn d db =
           Inr (\<lparr> t_id = next_serial (transactionsTable db), t_user_id = uid,
                      t_transaction_type = ty, t_amount = c, t_status = st,
                      t_payment_method = pm, t_reference_id = r,
                      t_product_id = p, t_target_number = tn,
                      t_digiflazz_reference = d,
                      t_created_at = now e, t_updated_at = now e \<rparr>,
                db\<lparr>transactionsTable := transactionsTable db @
                   [\<lparr> t_id = next_serial (transactionsTable db), t_user_id = uid,
                      t_transaction_type = ty, t_amount = c, t_status = st,
                      t_payment_method = pm, t_reference_id = r,
                      t_product_id = p, t_target_number = tn,
                      t_digiflazz_reference = d,
                      t_created_at = now e, t_updated_at = now e \<rparr>]\<rparr>)"
  using assms by (simp add: insert_transaction_def to_numeric_parseFloat Let_def)

text \<open>Each handler keeps the balances non-negative.\<close>

lemma insert_transaction_users:
  "insert_transaction e uid ty amount st pm r p tn d db = Inr (row, db1) \<Longrightarrow>
     usersTable db1 = usersTable db"
  by (auto simp: insert_transaction_def Let_def split: sum.splits)

lemma update_transaction_users:
  "update_transaction tid f db = (rows, db') \<Longrightarrow> usersTable db' = usersTable db"
  by (auto simp: update_transaction_def)

lemma update_wallet_balance_nonneg:
  assumes "update_wallet_balance uid x ts db = Inr db'" and "0 \<le> x"
      and "balances_nonnegative db"
  shows "balances_nonnegative db'"
proof -
  from assms(1) obtain c where c: "to_numeric_10_2 x = Inr c"
    and db': "usersTable db' = map (\<lambda>u. if u_id u = uid
                 then u\<lparr>u_wallet_balance := c, u_updated_at := ts\<rparr> else u) (usersTable db)"
    by (auto simp: update_wallet_balance_def split: sum.splits)
  have "0 \<le> c"
    using to_numeric_nonneg[OF assms(2) c] .
  then show ?thesis
    using assms(3) by (auto simp: balances_nonnegative_def db')
qed

lemma walletDeposit_nonneg:
  assumes inv: "balances_nonnegative db" and pos: "0 < wd_amount input"
  shows "balances_nonnegative (snd (walletDeposit e input db))"
proof (cases "[u \<leftarrow> usersTable db. u_id u = wd_user_id input]")
  case Nil
  then show ?thesis using inv by (simp add: walletDeposit_def)
next
  case (Cons currentUser us)
  have "currentUser \<in> set [u \<leftarrow> usersTable db. u_id u = wd_user_id input]"
    by (simp add: Cons)
  then have "currentUser \<in> set (usersTable db)"
    by simp
  then have bal: "0 \<le> parseFloat (u_wallet_balance currentUser) + wd_amount input"
    using inv pos by (auto simp: balances_nonnegative_def parseFloat_def)
  show ?thesis
  proof (cases "insert_transaction e (wd_user_id input) wallet_deposit (wd_amount input) pending
                  (wd_payment_method input) (Some (''PAY_'' @ string_of_nat (now e))) None None None db")
    case (Inl err)
    then show ?thesis using inv Cons by (simp add: walletDeposit_def)
  next
    case (Inr res)
    obtain transaction db1 where res: "res = (transaction, db1)" by (cases res)
    have inv1: "balances_nonnegative db1"
      using insert_transaction_users[OF Inr[unfolded res]] inv
      by (simp add: balances_nonnegative_def)
    show ?thesis
    proof (cases "update_wallet_balance (wd_user_id input)
                    (parseFloat (u_wallet_balance currentUser) + wd_amount input) (now e) db1")
      case (Inl err)
      then show ?thesis using inv1 Cons Inr res by (simp add: walletDeposit_def)
    next
      case upd: (Inr db2)
      have inv2: "balances_nonnegative db2"
        using update_wallet_balance_nonneg[OF upd bal inv1] .
      obtain rows db3 where ut: "update_transaction (t_id transaction)
          (\<lambda>t. t\<lparr>t_status := completed, t_updated_at := now e\<rparr>) db2 = (rows, db3)"
        by fastforce
      have inv3: "balances_nonnegative db3"
        using update_transaction_users[OF ut] inv2 by (simp add: balances_nonnegative_def)
      show ?thesis
        using inv3 Cons Inr res upd ut by (simp add: walletDeposit_def split: list.splits)
    qed
  qed
qed

lemma processTopUp_execute_nonneg:
  assumes inv: "balances_nonnegative db"
      and ok: "tu_payment_method input = wallet \<longrightarrow>
                 (\<exists>user us. [u \<leftarrow> usersTable db. u_id u = tu_user_id input] = user # us \<and>
                    productPrice \<le> parseFloat (u_wallet_balance user))"
  shows "balances_nonnegative (snd (processTopUp_execute e input productPrice db))"
proof (cases "insert_transaction e (tu_user_id input) topup productPrice pending
             (tu_payment_method input)
             (if tu_payment_method input = payment_gateway
              then Some (''PAY_'' @ string_of_nat (now e)) else None)
             (Some (tu_product_id input)) (Some (tu_target_number input)) None db")
  case (Inl err)
  then show ?thesis using inv by (simp add: processTopUp_execute_def)
next
  case (Inr res)
  obtain transaction db1 where res: "res = (transaction, db1)" by (cases res)
  have users1: "usersTable db1 = usersTable db"
    using insert_transaction_users[OF Inr[unfolded res]] .
  have inv1: "balances_nonnegative db1"
    using users1 inv by (simp add: balances_nonnegative_def)
  let ?step = "if tu_payment_method input = wallet \<and> 1 / 10 < random e
               then deduct_from_wallet e input productPrice db1 else Inr db1"
  show ?thesis
  proof (cases ?step)
    case (Inl err)
    then show ?thesis using inv1 Inr res by (simp add: processTopUp_execute_def Let_def)
  next
    case step: (Inr db2)
    have inv2: "balances_nonnegative db2"
    proof (cases "tu_payment_method input = wallet \<and> 1 / 10 < random e")
      case False
      then show ?thesis using step inv1 by auto
    next
      case True
      then obtain user us where user: "[u \<leftarrow> usersTable db. u_id u = tu_user_id input] = user # us"
        and le: "productPrice \<le> parseFloat (u_wallet_balance user)"
        using ok by blast
      from True step have "update_wallet_balance (tu_user_id input)
          (parseFloat (u_wallet_balance user) - productPrice) (now e) db1 = Inr db2"
        by (simp add: deduct_from_wallet_def users1 user)
      then show ?thesis
        using update_wallet_balance_nonneg inv1 le by fastforce
    qed
    obtain rows db3 where ut: "update_transaction (t_id transaction)
        (\<lambda>t. t\<lparr>t_status := (if 1 / 10 < random e then completed else failed),
                t_digiflazz_reference := Some (''DGF_'' @ string_of_nat (now e)),
                t_updated_at := now e\<rparr>) db2 = (rows, db3)"
      by fastforce
    have inv3: "balances_nonnegative db3"
      using update_transaction_users[OF ut] inv2 by (simp add: balances_nonnegative_def)
    show ?thesis
      using inv3 Inr res step ut
      by (simp add: processTopUp_execute_def Let_def split: list.splits)
  qed
qed

lemma processTopUp_validate_wallet:
  assumes "processTopUp_validate input db = Inr productPrice" and "tu_payment_method input = wallet"
  shows "\<exists>user us. [u \<leftarrow> usersTable db. u_id u = tu_user_id input] = user # us \<and>
           productPrice \<le> parseFloat (u_wallet_balance user)"
  using assms
  by (auto simp: processTopUp_validate_def Let_def split: list.splits if_splits)

lemma processTopUp_nonneg:
  assumes "balances_nonnegative db"
  shows "balances_nonnegative (snd (processTopUp e input db))"
proof (cases "processTopUp_validate input db")
  case (Inl err)
  then show ?thesis using assms by (simp add: processTopUp_def)
next
  case (Inr productPrice)
  then show ?thesis
    using processTopUp_execute_nonneg[OF assms, of input productPrice e]
      processTopUp_validate_wallet[OF Inr]
    by (simp add: processTopUp_def)
qed

text \<open>
  The listing is sorted and a permutation of the rows it is given; where the
  timestamps differ pairwise it does not depend on the executor's choice.
\<close>

lemma order_by_desc_created_at_sorted:
  "sorted_wrt (\<lambda>a b. t_created_at b \<le> t_created_at a) (order_by_desc_created_at tie rows)"
proof -
  have "sorted (map (\<lambda>t. - int (t_created_at t)) (order_by_desc_created_at tie rows))"
    by (simp add: order_by_desc_created_at_def)
  then show ?thesis
    by (simp add: sorted_map sorted_wrt_iff_nth_less)
qed

lemma order_by_desc_created_at_mset [simp]:
  "mset (order_by_desc_created_at tie rows) = mset rows"
  by (simp add: order_by_desc_created_at_def)

lemma order_by_desc_created_at_set [simp]:
  "set (order_by_desc_created_at tie rows) = set rows"
  by (simp add: order_by_desc_created_at_def)

lemma order_by_desc_created_at_length [simp]:
  "length (order_by_desc_created_at tie rows) = length rows"
  by (simp add: order_by_desc_created_at_def)

lemma sorted_key_unique:
  fixes f :: "'a \<Rightarrow> int"
  assumes "mset xs = mset ys" and "distinct (map f xs)"
      and "sorted (map f xs)" and "sorted (map f ys)"
  shows "xs = ys"
proof -
  have m: "mset (map f xs) = mset (map f ys)"
    using assms(1) by simp
  have dy: "distinct (map f ys)"
    using m assms(2) by (metis mset_eq_imp_distinct_iff)
  have "set (map f xs) = set (map f ys)"
    using m by (metis set_mset_mset)
  then have keys: "map f xs = map f ys"
    using assms(2,3,4) dy by (simp add: sorted_distinct_set_unique)
  have "set xs = set ys"
    using assms(1) by (metis set_mset_mset)
  moreover have "inj_on f (set xs)"
    using assms(2) by (simp add: distinct_map)
  ultimately show ?thesis
    using keys by (simp add: inj_on_map_eq_map)
qed

lemma order_by_desc_created_at_unique:
  assumes "distinct (map t_created_at rows)"
  shows "order_by_desc_created_at tie rows = order_by_desc_created_at tie' rows"
proof (rule sorted_key_unique[where f = "\<lambda>t. - int (t_created_at t)"])
  show "mset (order_by_desc_created_at tie rows) = mset (order_by_desc_created_at tie' rows)"
    by simp
  have "distinct (map (\<lambda>t. - int (t_created_at t)) rows)"
    using assms by (simp add: distinct_map inj_on_def)
  moreover have "mset (map (\<lambda>t. - int (t_created_at t)) (order_by_desc_created_at tie rows))
      = mset (map (\<lambda>t. - int (t_created_at t)) rows)"
    by simp
  ultimately show "distinct (map (\<lambda>t. - int (t_created_at t)) (order_by_desc_created_at tie rows))"
    by (metis mset_eq_imp_distinct_iff)
  show "sorted (map (\<lambda>t. - int (t_created_at t)) (order_by_desc_created_at tie rows))"
    by (simp add: order_by_desc_created_at_def)
  show "sorted (map (\<lambda>t. - int (t_created_at t)) (order_by_desc_created_at tie' rows))"
    by (simp add: order_by_desc_created_at_def)
qed

text \<open>
  The choice covers every order SQL allows: any newest-first arrangement of the
  rows (rows being distinct, as rows with a primary key are) is what the
  executor returns for some \<open>tie\<close>.
\<close>

lemma position_map: "distinct xs \<Longrightarrow> map (position xs) xs = map int [0..<length xs]"
proof (induction xs)
  case Nil
  then show ?case by simp
next
  case (Cons x xs)
  have "map (position (x # xs)) xs = map (\<lambda>y. 1 + position xs y) xs"
    using Cons.prems by (auto simp: position_def)
  also have "\<dots> = map (\<lambda>i. 1 + i) (map (position xs) xs)"
    by simp
  also have "\<dots> = map (\<lambda>i. 1 + i) (map int [0..<length xs])"
    using Cons by simp
  also have "\<dots> = map int (map Suc [0..<length xs])"
    by simp
  also have "\<dots> = map int [1..<Suc (length xs)]"
    by (simp only: map_Suc_upt One_nat_def)
  finally have tl: "map (position (x # xs)) xs = map int [1..<Suc (length xs)]" .
  have "position (x # xs) x = 0"
    by (simp add: position_def)
  then show ?case
    using tl by (simp add: upt_conv_Cons del: upt_Suc)
qed

lemma order_by_desc_created_at_complete:
  assumes d: "distinct rows" and m: "mset out = mset rows"
      and s: "sorted_wrt (\<lambda>a b. t_created_at b \<le> t_created_at a) out"
  shows "\<exists>tie. order_by_desc_created_at tie rows = out"
proof -
  have dout: "distinct out"
    using d m by (metis mset_eq_imp_distinct_iff)
  have keys: "map (position out) out = map int [0..<length out]"
    using dout by (rule position_map)
  have "distinct (map (position out) out)"
    unfolding keys by (simp add: distinct_map inj_on_def)
  then have "inj_on (position out) (set out)"
    by (simp add: distinct_map)
  moreover have "set rows = set out"
    using m by (metis set_mset_mset)
  ultimately have inj: "inj_on (position out) (set rows)"
    by simp
  have "sorted (map (position out) out)"
    unfolding keys by (simp add: sorted_map sorted_wrt_iff_nth_less)
  then have first: "sort_key (position out) rows = out"
    using m inj by (simp add: sort_key_inj_key_eq)
  have "sorted (map (\<lambda>t. - int (t_created_at t)) out)"
    using s by (simp add: sorted_map sorted_wrt_iff_nth_less)
  then have "sort_key (\<lambda>t. - int (t_created_at t)) out = out"
    by (rule sort_key_id_if_sorted)
  then have "order_by_desc_created_at (position out) rows = out"
    by (simp add: order_by_desc_created_at_def first)
  then show ?thesis by blast
qed

text \<open>A page is cut from the user's whole history by offset and limit.\<close>

lemma getUserTransactions_eq:
  "getUserTransactions tie \<lparr>gt_user_id = uid, gt_limit = lmt, gt_offset = off\<rparr> db =
     take (case lmt of None \<Rightarrow> 10 | Some l \<Rightarrow> l)
       (drop (case off of None \<Rightarrow> 0 | Some k \<Rightarrow> k)
          (map to_Transaction
             (order_by_desc_created_at tie [t \<leftarrow> transactionsTable db. t_user_id t = uid])))"
  by (simp add: getUserTransactions_def take_map drop_map)

lemma whole_history:
  "mset (map to_Transaction (order_by_desc_created_at tie rows)) = mset (map to_Transaction rows) \<and>
   sorted_wrt (\<lambda>a b. t_created_at b \<le> t_created_at a)
     (map to_Transaction (order_by_desc_created_at tie rows))"
proof -
  have "sorted_wrt (\<lambda>a b. t_created_at b \<le> t_created_at a) (order_by_desc_created_at tie rows)"
    by (rule order_by_desc_created_at_sorted)
  then show ?thesis
    by (simp add: sorted_wrt_map to_Transaction_def)
qed

text \<open>What the checks of \<open>processTopUp\<close> return when they all pass.\<close>

lemma processTopUp_validate_ok:
  assumes "[p \<leftarrow> serviceProductsTable db. p_id p = tu_product_id input \<and> p_is_active p] = product # ps"
      and "[u \<leftarrow> usersTable db. u_id u = tu_user_id input] = user # us"
      and "tu_payment_method input = wallet \<longrightarrow>
             parseFloat (p_price product) \<le> parseFloat (u_wallet_balance user)"
  shows "processTopUp_validate input db = Inr (parseFloat (p_price product))"
  using assms by (cases "tu_payment_method input") (simp_all add: processTopUp_validate_def)

lemma string_of_nat_7: "string_of_nat 7 = ''7''"
  by (simp add: string_of_nat.simps digit_char_def)

text \<open>The definitions a run of a handler on a concrete state unfolds.\<close>

lemmas run_defs = processTopUp_def processTopUp_validate_def processTopUp_execute_def
  processTopUp_interleaved_def concurrent_processTopUp_def
  walletDeposit_def insert_transaction_def deduct_from_wallet_def update_wallet_balance_def
  update_transaction_def to_numeric_10_2_def round_half_away_def next_serial_def parseFloat_def
  to_Transaction_def to_User_def getUserById_def Let_def string_of_nat_7

section \<open>processTopUp\<close>

text \<open>
  C1. When the user exists, the referenced product exists and is active with
  price \<open>p\<close>, the wallet balance \<open>b\<close> is at least \<open>p\<close>, the payment method is
  \<^verbatim>\<open>wallet\<close> and the simulated API succeeds, \<open>processTopUp\<close> returns a transaction
  with status \<open>completed\<close>, type \<open>topup\<close> and amount \<open>p\<close>, and the balance
  \<open>getUserById\<close> then reads is \<open>b - p\<close>. The stored price is not negative and
  the stored balance is a value of its \<^verbatim>\<open>numeric(10, 2)\<close> column.
\<close>

theorem processTopUp_wallet_success:
  assumes product: "[p \<leftarrow> serviceProductsTable db. p_id p = tu_product_id input \<and> p_is_active p] = product # ps"
      and user: "[u \<leftarrow> usersTable db. u_id u = tu_user_id input] = user # us"
      and wallet: "tu_payment_method input = wallet"
      and enough: "parseFloat (p_price product) \<le> parseFloat (u_wallet_balance user)"
      and gateway: "1 / 10 < random e"
      and price: "0 \<le> p_price product"
      and balance: "in_numeric_10_2 (u_wallet_balance user)"
  shows "\<exists>tx db'. processTopUp e input db = (Inr tx, db') \<and>
           t_status tx = completed \<and> t_transaction_type tx = topup \<and>
           t_amount tx = parseFloat (p_price product) \<and>
           map_option u_wallet_balance (getUserById \<lparr>gu_user_id = tu_user_id input\<rparr> db') =
             Some (parseFloat (u_wallet_balance user) - parseFloat (p_price product))"
proof -
  let ?p = "p_price product" and ?b = "u_wallet_balance user"
  have le: "?p \<le> ?b"
    using enough parseFloat_less_iff[of ?b ?p] by simp
  have p_ok: "in_numeric_10_2 ?p" and new_ok: "in_numeric_10_2 (?b - ?p)"
    using le price balance by (auto simp: in_numeric_10_2_def)
  have validate: "processTopUp_validate input db = Inr (parseFloat ?p)"
    using product user wallet enough by (simp add: processTopUp_validate_def)
  show ?thesis
    using wallet gateway user
    by (simp add: processTopUp_def validate processTopUp_execute_def
        insert_transaction_ok[OF p_ok] deduct_from_wallet_def update_wallet_balance_def
        parseFloat_diff to_numeric_parseFloat[OF new_ok]
        update_transaction_def filter_next_serial map_next_serial
        to_Transaction_def getUserById_def filter_updated_users to_User_def)
qed

theorem processTopUp_wallet_success_witness:
  "map_sum id (\<lambda>tx. (t_status tx, t_transaction_type tx, t_amount tx))
     (fst (processTopUp api_success (test_topup 1 1 wallet) test_db)) = Inr (completed, topup, 10000) \<and>
   map_option u_wallet_balance (getUserById \<lparr>gu_user_id = 1\<rparr> test_db) = Some 100000 \<and>
   map_option u_wallet_balance
     (getUserById \<lparr>gu_user_id = 1\<rparr> (snd (processTopUp api_success (test_topup 1 1 wallet) test_db)))
     = Some 90000"
proof -
  have product: "[p \<leftarrow> serviceProductsTable test_db.
                    p_id p = tu_product_id (test_topup 1 1 wallet) \<and> p_is_active p]
                 = test_activeProduct # []"
    by (simp add: test_defs)
  have user: "[u \<leftarrow> usersTable test_db. u_id u = tu_user_id (test_topup 1 1 wallet)]
                 = test_user # []"
    by (simp add: test_defs)
  have rest: "tu_payment_method (test_topup 1 1 wallet) = wallet"
    "parseFloat (p_price test_activeProduct) \<le> parseFloat (u_wallet_balance test_user)"
    "1 / 10 < random api_success" "0 \<le> p_price test_activeProduct"
    "in_numeric_10_2 (u_wallet_balance test_user)"
    by (simp_all add: test_defs parseFloat_def in_numeric_10_2_def)
  from processTopUp_wallet_success[OF product user rest]
  obtain tx db' where "processTopUp api_success (test_topup 1 1 wallet) test_db = (Inr tx, db')"
    "t_status tx = completed" "t_transaction_type tx = topup"
    "t_amount tx = parseFloat (p_price test_activeProduct)"
    "map_option u_wallet_balance (getUserById \<lparr>gu_user_id = tu_user_id (test_topup 1 1 wallet)\<rparr> db') =
       Some (parseFloat (u_wallet_balance test_user) - parseFloat (p_price test_activeProduct))"
    by blast
  then show ?thesis
    by (simp add: test_defs parseFloat_def getUserById_def to_User_def)
qed

text \<open>
  C3. When the product exists and is active with price \<open>p\<close>, the user exists,
  the payment method is \<^verbatim>\<open>wallet\<close> and the balance is strictly less than \<open>p\<close>,
  \<open>processTopUp\<close> throws the insufficient-balance error and the database it
  leaves is the one it found: no transaction row, no balance changed.
\<close>

theorem processTopUp_insufficient_balance:
  assumes "[p \<leftarrow> serviceProductsTable db. p_id p = tu_product_id input \<and> p_is_active p] = product # ps"
      and "[u \<leftarrow> usersTable db. u_id u = tu_user_id input] = user # us"
      and "tu_payment_method input = wallet"
      and "parseFloat (u_wallet_balance user) < parseFloat (p_price product)"
  shows "processTopUp e input db = (Inl InsufficientWalletBalance, db)"
  using assms by (simp add: processTopUp_def processTopUp_validate_def)

theorem processTopUp_insufficient_balance_witness:
  "parseFloat (u_wallet_balance test_lowBalanceUser) < parseFloat (p_price test_activeProduct) \<and>
   processTopUp api_success (test_topup 2 1 wallet) test_db = (Inl InsufficientWalletBalance, test_db)"
proof -
  have product: "[p \<leftarrow> serviceProductsTable test_db.
                    p_id p = tu_product_id (test_topup 2 1 wallet) \<and> p_is_active p]
                 = test_activeProduct # []"
    by (simp add: test_defs)
  have user: "[u \<leftarrow> usersTable test_db. u_id u = tu_user_id (test_topup 2 1 wallet)]
                 = test_lowBalanceUser # []"
    by (simp add: test_defs)
  have pm: "tu_payment_method (test_topup 2 1 wallet) = wallet"
    by (simp add: test_defs)
  have less: "parseFloat (u_wallet_balance test_lowBalanceUser) < parseFloat (p_price test_activeProduct)"
    by (simp add: test_defs parseFloat_def)
  show ?thesis
    using less processTopUp_insufficient_balance[OF product user pm less, of api_success]
    by simp
qed

text \<open>
  C4. When no product with the requested id is active (there is none with that
  id, or its \<^verbatim>\<open>is_active\<close> flag is false), \<open>processTopUp\<close> throws the
  product-not-found error and leaves the database as it found it, whatever the
  payment method.
\<close>

theorem processTopUp_product_not_found:
  assumes "\<forall>p \<in> set (serviceProductsTable db). p_id p = tu_product_id input \<longrightarrow> \<not> p_is_active p"
  shows "processTopUp e input db = (Inl ProductNotFoundOrInactive, db)"
proof -
  have "[p \<leftarrow> serviceProductsTable db. p_id p = tu_product_id input \<and> p_is_active p = True] = []"
    using assms by (auto simp: filter_empty_conv)
  then show ?thesis
    by (simp add: processTopUp_def processTopUp_validate_def)
qed

theorem processTopUp_product_not_found_witness:
  "processTopUp api_success (test_topup 1 2 wallet) test_db = (Inl ProductNotFoundOrInactive, test_db) \<and>
   processTopUp api_success (test_topup 1 2 payment_gateway) test_db = (Inl ProductNotFoundOrInactive, test_db) \<and>
   processTopUp api_success (test_topup 1 99999 wallet) test_db = (Inl ProductNotFoundOrInactive, test_db) \<and>
   processTopUp api_success (test_topup 1 99999 payment_gateway) test_db = (Inl ProductNotFoundOrInactive, test_db)"
proof -
  have none: "\<forall>p \<in> set (serviceProductsTable test_db).
          p_id p = tu_product_id (test_topup 1 pid pm) \<longrightarrow> \<not> p_is_active p"
    if "pid = 2 \<or> pid = 99999" for pid pm
    using that by (auto simp: test_defs)
  show ?thesis
    using processTopUp_product_not_found[OF none[of 2 wallet], of api_success]
      processTopUp_product_not_found[OF none[of 2 payment_gateway], of api_success]
      processTopUp_product_not_found[OF none[of 99999 wallet], of api_success]
      processTopUp_product_not_found[OF none[of 99999 payment_gateway], of api_success]
    by simp
qed

text \<open>
  C5. When the validations pass (an active product, an existing user and, for a
  wallet payment, a balance of at least the price) and the simulated API fails,
  \<open>processTopUp\<close> does not throw: it returns a transaction with status \<open>failed\<close>
  that carries the Digiflazz reference. That transaction is the one row the
  call adds to the transactions table, stored under a new id with status
  \<open>failed\<close> and the reference; the users table, and with it every balance, is
  unchanged.
\<close>

theorem processTopUp_gateway_failure:
  assumes product: "[p \<leftarrow> serviceProductsTable db. p_id p = tu_product_id input \<and> p_is_active p] = product # ps"
      and user: "[u \<leftarrow> usersTable db. u_id u = tu_user_id input] = user # us"
      and enough: "tu_payment_method input = wallet \<longrightarrow>
             parseFloat (p_price product) \<le> parseFloat (u_wallet_balance user)"
      and gateway: "\<not> 1 / 10 < random e"
      and price: "in_numeric_10_2 (p_price product)"
  shows "\<exists>tx row db'. processTopUp e input db = (Inr tx, db') \<and>
           t_status tx = failed \<and>
           t_digiflazz_reference tx = Some (''DGF_'' @ string_of_nat (now e)) \<and>
           usersTable db' = usersTable db \<and>
           serviceProductsTable db' = serviceProductsTable db \<and>
           transactionsTable db' = transactionsTable db @ [row] \<and>
           tx = to_Transaction row \<and>
           t_status row = failed \<and>
           t_digiflazz_reference row = Some (''DGF_'' @ string_of_nat (now e)) \<and>
           t_user_id row = tu_user_id input \<and>
           t_transaction_type row = topup \<and>
           t_amount row = p_price product \<and>
           t_product_id row = Some (tu_product_id input) \<and>
           (\<forall>old \<in> set (transactionsTable db). t_id old \<noteq> t_id row)"
proof -
  have fresh: "\<forall>old \<in> set (transactionsTable db). t_id old \<noteq> next_serial (transactionsTable db)"
    using next_serial_fresh by fastforce
  show ?thesis
    using gateway fresh
    by (simp add: processTopUp_def processTopUp_validate_ok[OF product user enough]
        processTopUp_execute_def insert_transaction_ok[OF price]
        update_transaction_def filter_next_serial map_next_serial to_Transaction_def Let_def)
qed

theorem processTopUp_gateway_failure_witness:
  "map_sum id t_status (fst (processTopUp api_failure (test_topup 1 1 wallet) test_db)) = Inr failed \<and>
   map_sum id t_digiflazz_reference
     (fst (processTopUp api_failure (test_topup 1 1 wallet) test_db)) = Inr (Some ''DGF_7'') \<and>
   usersTable (snd (processTopUp api_failure (test_topup 1 1 wallet) test_db)) = usersTable test_db \<and>
   map t_id (transactionsTable (snd (processTopUp api_failure (test_topup 1 1 wallet) test_db))) = [1] \<and>
   map t_status (transactionsTable (snd (processTopUp api_failure (test_topup 1 1 wallet) test_db)))
     = [failed] \<and>
   map t_digiflazz_reference
     (transactionsTable (snd (processTopUp api_failure (test_topup 1 1 wallet) test_db)))
     = [Some ''DGF_7'']"
proof -
  have product: "[p \<leftarrow> serviceProductsTable test_db.
                    p_id p = tu_product_id (test_topup 1 1 wallet) \<and> p_is_active p]
                 = test_activeProduct # []"
    by (simp add: test_defs)
  have user: "[u \<leftarrow> usersTable test_db. u_id u = tu_user_id (test_topup 1 1 wallet)]
                 = test_user # []"
    by (simp add: test_defs)
  have rest: "tu_payment_method (test_topup 1 1 wallet) = wallet \<longrightarrow>
      parseFloat (p_price test_activeProduct) \<le> parseFloat (u_wallet_balance test_user)"
    "\<not> 1 / 10 < random api_failure" "in_numeric_10_2 (p_price test_activeProduct)"
    by (simp_all add: test_defs parseFloat_def in_numeric_10_2_def)
  have now: "string_of_nat (now api_failure) = ''7''"
    by (simp add: api_failure_def string_of_nat.simps digit_char_def)
  have empty: "transactionsTable test_db = []"
    by (simp add: test_defs)
  from processTopUp_gateway_failure[OF product user rest]
  obtain tx row db' where run: "processTopUp api_failure (test_topup 1 1 wallet) test_db = (Inr tx, db')"
    and facts: "t_status tx = failed"
    "t_digiflazz_reference tx = Some (''DGF_'' @ string_of_nat (now api_failure))"
    "usersTable db' = usersTable test_db"
    "transactionsTable db' = transactionsTable test_db @ [row]"
    "t_status row = failed"
    "t_digiflazz_reference row = Some (''DGF_'' @ string_of_nat (now api_failure))"
    by blast
  have "t_id row = 1"
    using run facts(4) by (auto simp: run_defs test_defs)
  then show ?thesis
    using facts by (simp add: run now empty)
qed




section \<open>walletDeposit\<close>

text \<open>
  C7. A deposit request whose amount is not positive is rejected by the input
  schema with a \<open>too_small\<close> issue for \<^verbatim>\<open>amount\<close> before the handler runs: the
  database is left as it was, for every user id, existing or not.
\<close>

theorem walletDeposit_procedure_rejects_nonpositive:
  assumes "wd_amount raw \<le> 0"
  shows "\<exists>issues. walletDeposit_procedure e raw db = (Inl (ZodError issues), db) \<and>
           too_small ''amount'' \<in> set issues"
  using assms by (simp add: walletDeposit_procedure_def walletDepositInputSchema_def)

theorem walletDeposit_procedure_rejects_nonpositive_witness:
  "walletDeposit_procedure api_success (test_deposit 1 0) test_db
     = (Inl (ZodError [too_small ''amount'']), test_db) \<and>
   walletDeposit_procedure api_success (test_deposit 99999 (- 50)) test_db
     = (Inl (ZodError [too_small ''amount'']), test_db)"
  using walletDeposit_procedure_rejects_nonpositive[of "test_deposit 1 0" api_success test_db]
    walletDeposit_procedure_rejects_nonpositive[of "test_deposit 99999 (- 50)" api_success test_db]
  by (auto simp: test_deposit_def walletDeposit_procedure_def walletDepositInputSchema_def)

text \<open>
  The check above is the schema's. The handler called on its own takes any
  amount: a deposit of -50 is completed and lowers the balance.
\<close>

lemma walletDeposit_handler_takes_any_amount:
  "fst (walletDeposit api_success (test_deposit 1 (- 50)) test_db) =
     Inr \<lparr> t_id = 1, t_user_id = 1, t_transaction_type = wallet_deposit, t_amount = - 50,
           t_status = completed, t_payment_method = payment_gateway,
           t_reference_id = Some ''PAY_7'', t_product_id = None, t_target_number = None,
           t_digiflazz_reference = None, t_created_at = 7, t_updated_at = 7 \<rparr> \<and>
   map_option u_wallet_balance
     (getUserById \<lparr>gu_user_id = 1\<rparr>
        (snd (walletDeposit api_success (test_deposit 1 (- 50)) test_db))) = Some 99950"
  by (simp add: run_defs test_defs)

text \<open>
  C8, as the code has it. For an existing user with stored balance \<open>b\<close> and an
  amount \<open>A > 0\<close> that is a whole number of hundredths, where \<open>A\<close> and \<open>b + A\<close>
  both fit a \<^verbatim>\<open>numeric(10, 2)\<close> column, \<open>walletDeposit\<close> returns a transaction
  with status \<open>completed\<close> and amount \<open>A\<close>, and \<open>getUserById\<close> then reads the
  balance \<open>b + A\<close>.
\<close>

theorem walletDeposit_round_trip:
  assumes user: "[u \<leftarrow> usersTable db. u_id u = wd_user_id input] = user # us"
      and amount: "wd_amount input = parseFloat a" "0 < a"
      and fits: "in_numeric_10_2 a" "in_numeric_10_2 (u_wallet_balance user + a)"
  shows "\<exists>tx db'. walletDeposit e input db = (Inr tx, db') \<and>
           t_status tx = completed \<and> t_amount tx = wd_amount input \<and>
           map_option u_wallet_balance (getUserById \<lparr>gu_user_id = wd_user_id input\<rparr> db') =
             Some (parseFloat (u_wallet_balance user) + wd_amount input)"
  using user
  by (simp add: walletDeposit_def amount(1) insert_transaction_ok[OF fits(1)]
      update_wallet_balance_def parseFloat_sum to_numeric_parseFloat[OF fits(2)]
      update_transaction_def filter_next_serial map_next_serial
      to_Transaction_def getUserById_def filter_updated_users to_User_def Let_def)

theorem walletDeposit_round_trip_witness:
  "map_option u_wallet_balance (getUserById \<lparr>gu_user_id = 1\<rparr> test_db) = Some 100000 \<and>
   map_sum id (\<lambda>tx. (t_status tx, t_amount tx))
     (fst (walletDeposit api_success (test_deposit 1 50) test_db)) = Inr (completed, 50) \<and>
   map_option u_wallet_balance
     (getUserById \<lparr>gu_user_id = 1\<rparr> (snd (walletDeposit api_success (test_deposit 1 50) test_db)))
     = Some 100050"
proof -
  have user: "[u \<leftarrow> usersTable test_db. u_id u = wd_user_id (test_deposit 1 50)] = test_user # []"
    by (simp add: test_defs)
  have rest: "wd_amount (test_deposit 1 50) = parseFloat 5000" "0 < (5000::int)"
    "in_numeric_10_2 5000" "in_numeric_10_2 (u_wallet_balance test_user + 5000)"
    by (simp_all add: test_defs parseFloat_def in_numeric_10_2_def)
  from walletDeposit_round_trip[OF user rest]
  obtain tx db' where "walletDeposit api_success (test_deposit 1 50) test_db = (Inr tx, db')"
    "t_status tx = completed" "t_amount tx = wd_amount (test_deposit 1 50)"
    "map_option u_wallet_balance (getUserById \<lparr>gu_user_id = wd_user_id (test_deposit 1 50)\<rparr> db') =
       Some (parseFloat (u_wallet_balance test_user) + wd_amount (test_deposit 1 50))"
    by blast
  then show ?thesis
    by (simp add: test_defs parseFloat_def getUserById_def to_User_def)
qed

text \<open>
  C8 as stated, for every amount \<open>A > 0\<close>, fails at \<open>A = 0.001\<close>: the amount and
  the new balance are rounded to two fractional digits when they are stored, so
  the transaction comes back with amount 0 and the balance read afterwards is
  still 100000, not 100000.001. It also fails where the new balance no longer
  fits the column: with 99999999.99 in the wallet a deposit of 0.01 throws after
  the pending row was inserted, and the balance stays as it was.
\<close>

theorem walletDeposit_round_trip_counterexample:
  "fst (walletDeposit api_success (test_deposit 1 (1 / 1000)) test_db) =
     Inr \<lparr> t_id = 1, t_user_id = 1, t_transaction_type = wallet_deposit, t_amount = 0,
           t_status = completed, t_payment_method = payment_gateway,
           t_reference_id = Some ''PAY_7'', t_product_id = None, t_target_number = None,
           t_digiflazz_reference = None, t_created_at = 7, t_updated_at = 7 \<rparr> \<and>
   map_option u_wallet_balance (getUserById \<lparr>gu_user_id = 1\<rparr> test_db) = Some 100000 \<and>
   map_option u_wallet_balance
     (getUserById \<lparr>gu_user_id = 1\<rparr>
        (snd (walletDeposit api_success (test_deposit 1 (1 / 1000)) test_db))) = Some 100000 \<and>
   fst (walletDeposit api_success (test_deposit 1 (1 / 100)) rich_db) = Inl NumericFieldOverflow \<and>
   map t_status
     (transactionsTable (snd (walletDeposit api_success (test_deposit 1 (1 / 100)) rich_db)))
     = [pending] \<and>
   map_option u_wallet_balance
     (getUserById \<lparr>gu_user_id = 1\<rparr>
        (snd (walletDeposit api_success (test_deposit 1 (1 / 100)) rich_db)))
     = Some (9999999999 / 100)"
  by (simp add: run_defs test_defs)

section \<open>The balance invariant holds\<close>

text \<open>
  C2, as the code has it. From a state in which no wallet balance is negative,
  a single \<open>processTopUp\<close> call, a single \<open>walletDeposit\<close> call with a positive
  amount (what its input schema asks for) and a single request to either
  procedure, each run with no other request between its database statements,
  lead to a state in which no wallet balance is negative, whatever the
  simulated API answers. In such a run what would make a balance negative is
  rejected with the database untouched: a wallet top-up whose price exceeds the
  balance, and a deposit whose amount would take the balance below zero.
\<close>

theorem balance_never_negative:
  assumes "balances_nonnegative db"
  shows "balances_nonnegative (snd (processTopUp e request db)) \<and>
         (0 < wd_amount dep \<longrightarrow> balances_nonnegative (snd (walletDeposit e dep db))) \<and>
         balances_nonnegative (snd (walletDeposit_procedure e dep db)) \<and>
         balances_nonnegative (snd (processTopUp_procedure e request db)) \<and>
         ([p \<leftarrow> serviceProductsTable db. p_id p = tu_product_id request \<and> p_is_active p] = product # ps \<and>
          [u \<leftarrow> usersTable db. u_id u = tu_user_id request] = user # us \<and>
          tu_payment_method request = wallet \<and>
          parseFloat (u_wallet_balance user) - parseFloat (p_price product) < 0 \<longrightarrow>
            processTopUp e request db = (Inl InsufficientWalletBalance, db)) \<and>
         ([u \<leftarrow> usersTable db. u_id u = wd_user_id dep] = depositor # ds \<and>
          parseFloat (u_wallet_balance depositor) + wd_amount dep < 0 \<longrightarrow>
            (\<exists>issues. walletDeposit_procedure e dep db = (Inl (ZodError issues), db)))"
proof (intro conjI impI)
  show "balances_nonnegative (snd (processTopUp e request db))"
    using assms by (rule processTopUp_nonneg)
  show "balances_nonnegative (snd (walletDeposit e dep db))" if "0 < wd_amount dep"
    using assms that by (rule walletDeposit_nonneg)
  show "balances_nonnegative (snd (walletDeposit_procedure e dep db))"
    using assms walletDeposit_nonneg[OF assms, of dep e]
    by (simp add: walletDeposit_procedure_def walletDepositInputSchema_def)
  show "balances_nonnegative (snd (processTopUp_procedure e request db))"
    using assms processTopUp_nonneg[OF assms, of e request]
    by (simp add: processTopUp_procedure_def topUpInputSchema_def)
next
  assume "[p \<leftarrow> serviceProductsTable db. p_id p = tu_product_id request \<and> p_is_active p] = product # ps \<and>
          [u \<leftarrow> usersTable db. u_id u = tu_user_id request] = user # us \<and>
          tu_payment_method request = wallet \<and>
          parseFloat (u_wallet_balance user) - parseFloat (p_price product) < 0"
  then show "processTopUp e request db = (Inl InsufficientWalletBalance, db)"
    by (simp add: processTopUp_def processTopUp_validate_def)
next
  assume h: "[u \<leftarrow> usersTable db. u_id u = wd_user_id dep] = depositor # ds \<and>
          parseFloat (u_wallet_balance depositor) + wd_amount dep < 0"
  then have "depositor \<in> set [u \<leftarrow> usersTable db. u_id u = wd_user_id dep]"
    by simp
  then have "0 \<le> parseFloat (u_wallet_balance depositor)"
    using assms by (simp add: balances_nonnegative_def parseFloat_def)
  with h have "wd_amount dep \<le> 0"
    by linarith
  then show "\<exists>issues. walletDeposit_procedure e dep db = (Inl (ZodError issues), db)"
    by (simp add: walletDeposit_procedure_def walletDepositInputSchema_def)
qed

theorem balance_never_negative_witness:
  "balances_nonnegative test_db \<and>
   balances_nonnegative (snd (processTopUp api_success (test_topup 1 1 wallet) test_db)) \<and>
   balances_nonnegative (snd (walletDeposit api_success (test_deposit 1 50) test_db)) \<and>
   balances_nonnegative (snd (walletDeposit_procedure api_success (test_deposit 1 50) test_db)) \<and>
   parseFloat (u_wallet_balance test_lowBalanceUser) - parseFloat (p_price test_activeProduct) < 0 \<and>
   processTopUp api_success (test_topup 2 1 wallet) test_db = (Inl InsufficientWalletBalance, test_db) \<and>
   parseFloat (u_wallet_balance test_lowBalanceUser) + wd_amount (test_deposit 2 (- 6000)) < 0 \<and>
   walletDeposit_procedure api_success (test_deposit 2 (- 6000)) test_db
     = (Inl (ZodError [too_small ''amount'']), test_db)"
proof -
  have inv: "balances_nonnegative test_db"
    by (simp add: balances_nonnegative_def test_defs)
  have pos: "0 < wd_amount (test_deposit 1 50)"
    by (simp add: test_defs)
  have low: "[p \<leftarrow> serviceProductsTable test_db.
                p_id p = tu_product_id (test_topup 2 1 wallet) \<and> p_is_active p] = test_activeProduct # [] \<and>
          [u \<leftarrow> usersTable test_db. u_id u = tu_user_id (test_topup 2 1 wallet)] = test_lowBalanceUser # [] \<and>
          tu_payment_method (test_topup 2 1 wallet) = wallet \<and>
          parseFloat (u_wallet_balance test_lowBalanceUser) - parseFloat (p_price test_activeProduct) < 0"
    by (simp add: test_defs parseFloat_def)
  have neg: "parseFloat (u_wallet_balance test_lowBalanceUser) + wd_amount (test_deposit 2 (- 6000)) < 0"
    by (simp add: test_defs parseFloat_def)
  have rejected: "walletDeposit_procedure api_success (test_deposit 2 (- 6000)) test_db
     = (Inl (ZodError [too_small ''amount'']), test_db)"
    by (simp add: walletDeposit_procedure_def walletDepositInputSchema_def test_defs)
  note thm1 = balance_never_negative[OF inv, of api_success "test_topup 1 1 wallet" "test_deposit 1 50"]
  note thm2 = balance_never_negative[OF inv, of api_success "test_topup 2 1 wallet" "test_deposit 1 50"
      test_activeProduct "[]" test_lowBalanceUser "[]"]
  show ?thesis
    using inv pos low neg rejected thm1 thm2 by simp
qed

text \<open>
  C2 as stated, for any single call, fails once another request runs between
  the call's balance check and its deduction. All balances are non-negative
  when the call starts (15000.00) and when it resumes (5000.00, after the other
  request); the call's input satisfies the schema; the call is not rejected but
  completed, and it leaves the balance at -5000.00.
\<close>

theorem balance_never_negative_counterexample:
  "balances_nonnegative tight_db \<and>
   topUpInputSchema (test_topup 1 1 wallet) = Inr (test_topup 1 1 wallet) \<and>
   balances_nonnegative (concurrent_processTopUp api_success (test_topup 1 1 wallet) tight_db) \<and>
   map_sum id t_status
     (fst (processTopUp_interleaved api_success (test_topup 1 1 wallet)
        (concurrent_processTopUp api_success (test_topup 1 1 wallet)) tight_db)) = Inr completed \<and>
   map u_wallet_balance
     (usersTable (snd (processTopUp_interleaved api_success (test_topup 1 1 wallet)
        (concurrent_processTopUp api_success (test_topup 1 1 wallet)) tight_db))) = [- 500000] \<and>
   \<not> balances_nonnegative
     (snd (processTopUp_interleaved api_success (test_topup 1 1 wallet)
        (concurrent_processTopUp api_success (test_topup 1 1 wallet)) tight_db))"
  by (simp add: run_defs test_defs balances_nonnegative_def topUpInputSchema_def)

section \<open>getUserTransactions\<close>

text \<open>
  C9, as the code has it. \<open>getUserTransactions\<close> with a limit \<open>l\<close> and an offset
  \<open>off\<close> returns the entries \<open>off, ..., off + l - 1\<close> of a newest-first
  arrangement of exactly the requested user's transactions: only transactions
  of that user, newest first by creation time, at most \<open>l\<close> of them. When the
  user's transactions have pairwise different creation times, that arrangement
  is the same in every call, and a page followed by the page that starts where
  it ended is the page of both lengths together, whatever the executor chooses
  in each of the three calls.
\<close>

theorem getUserTransactions_page:
  "(\<exists>whole.
      mset whole = mset (map to_Transaction [t \<leftarrow> transactionsTable db. t_user_id t = uid]) \<and>
      sorted_wrt (\<lambda>a b. t_created_at b \<le> t_created_at a) whole \<and>
      getUserTransactions tie \<lparr>gt_user_id = uid, gt_limit = Some l, gt_offset = Some off\<rparr> db =
        take l (drop off whole)) \<and>
   (\<forall>t \<in> set (getUserTransactions tie \<lparr>gt_user_id = uid, gt_limit = Some l, gt_offset = Some off\<rparr> db).
      t_user_id t = uid) \<and>
   sorted_wrt (\<lambda>a b. t_created_at b \<le> t_created_at a)
     (getUserTransactions tie \<lparr>gt_user_id = uid, gt_limit = Some l, gt_offset = Some off\<rparr> db) \<and>
   length (getUserTransactions tie \<lparr>gt_user_id = uid, gt_limit = Some l, gt_offset = Some off\<rparr> db) \<le> l \<and>
   (distinct (map t_created_at [t \<leftarrow> transactionsTable db. t_user_id t = uid]) \<longrightarrow>
      getUserTransactions tie \<lparr>gt_user_id = uid, gt_limit = Some l, gt_offset = Some off\<rparr> db @
      getUserTransactions tie' \<lparr>gt_user_id = uid, gt_limit = Some l', gt_offset = Some (off + l)\<rparr> db =
        getUserTransactions tie'' \<lparr>gt_user_id = uid, gt_limit = Some (l + l'), gt_offset = Some off\<rparr> db)"
proof -
  let ?rows = "[t \<leftarrow> transactionsTable db. t_user_id t = uid]"
  define whole where "whole c = map to_Transaction (order_by_desc_created_at c ?rows)" for c
  have page: "getUserTransactions c \<lparr>gt_user_id = uid, gt_limit = Some n, gt_offset = Some k\<rparr> db
                = take n (drop k (whole c))" for c n k
    by (simp add: getUserTransactions_eq whole_def)
  have perm: "mset (whole c) = mset (map to_Transaction ?rows)"
    and sorted: "sorted_wrt (\<lambda>a b. t_created_at b \<le> t_created_at a) (whole c)" for c
    using whole_history[of c ?rows] by (simp_all add: whole_def)
  have owner: "\<forall>t \<in> set (whole c). t_user_id t = uid" for c
    by (auto simp: whole_def to_Transaction_def)
  have only: "\<forall>t \<in> set (take l (drop off (whole tie))). t_user_id t = uid"
    using owner by (meson in_set_dropD in_set_takeD)
  have part: "sorted_wrt (\<lambda>a b. t_created_at b \<le> t_created_at a) (take l (drop off (whole tie)))"
    using sorted by simp
  have same: "whole c = whole c'" if "distinct (map t_created_at ?rows)" for c c'
    using order_by_desc_created_at_unique[OF that, of c c'] by (simp add: whole_def)
  have append: "take l (drop off (whole tie)) @ take l' (drop (off + l) (whole tie'))
                  = take (l + l') (drop off (whole tie''))"
    if "distinct (map t_created_at ?rows)"
    using same[OF that, of tie' tie] same[OF that, of tie'' tie]
    by (simp add: take_add add.commute)
  have ex: "\<exists>w. mset w = mset (map to_Transaction ?rows) \<and>
      sorted_wrt (\<lambda>a b. t_created_at b \<le> t_created_at a) w \<and>
      take l (drop off (whole tie)) = take l (drop off w)"
    using perm sorted by blast
  show ?thesis
    unfolding page using ex only part append by simp
qed

theorem getUserTransactions_page_witness:
  "distinct (map t_created_at [t \<leftarrow> transactionsTable history_db. t_user_id t = 1]) \<and>
   map t_amount (getUserTransactions t_id (history_query 1 (Some 2) (Some 0)) history_db) = [100, 25] \<and>
   map t_amount (getUserTransactions falling_id (history_query 1 (Some 2) (Some 2)) history_db) = [50] \<and>
   map t_amount (getUserTransactions t_id (history_query 1 (Some 4) (Some 0)) history_db) = [100, 25, 50] \<and>
   map t_user_id (getUserTransactions t_id (history_query 1 (Some 4) (Some 0)) history_db) = [1, 1, 1] \<and>
   map t_created_at (getUserTransactions t_id (history_query 1 (Some 4) (Some 0)) history_db) = [300, 200, 100]"
  using getUserTransactions_page[where db = history_db and uid = 1 and tie = t_id and l = 2
      and off = 0 and tie' = falling_id and l' = 2 and tie'' = t_id]
  by (simp add: getUserTransactions_def order_by_desc_created_at_def to_Transaction_def
      parseFloat_def test_defs)

text \<open>
  C9 as stated, for every stored set of transactions, fails where creation
  times are equal: the query has no second sort key, so two calls may arrange
  the user's transactions 1 and 3 (same timestamp) differently. The page at
  offset 0 of one arrangement and the page at offset 1 of the other both hold
  transaction 1; transaction 3 is listed by neither.
\<close>

theorem getUserTransactions_page_counterexample:
  "map t_created_at [t \<leftarrow> transactionsTable tied_history_db. t_user_id t = 1] = [100, 100] \<and>
   map t_id (getUserTransactions t_id (history_query 1 (Some 1) (Some 0)) tied_history_db) = [1] \<and>
   map t_id (getUserTransactions falling_id (history_query 1 (Some 1) (Some 1)) tied_history_db) = [1] \<and>
   map t_id (getUserTransactions t_id (history_query 1 (Some 2) (Some 0)) tied_history_db) = [1, 3] \<and>
   map t_id (getUserTransactions falling_id (history_query 1 (Some 2) (Some 0)) tied_history_db) = [3, 1]"
  by (simp add: getUserTransactions_def order_by_desc_created_at_def to_Transaction_def
      parseFloat_def test_defs)

text \<open>
  C10. Without a limit \<open>getUserTransactions\<close> takes 10, without an offset it
  starts at the newest entry: a call with neither returns the first 10 entries
  of a newest-first arrangement of exactly the user's transactions, so at most
  10, all of them the user's, and none older than a transaction of the user it
  leaves out; a user with more than 10 transactions gets 10 of them.
\<close>

theorem getUserTransactions_defaults:
  "(\<exists>whole.
      mset whole = mset (map to_Transaction [t \<leftarrow> transactionsTable db. t_user_id t = uid]) \<and>
      sorted_wrt (\<lambda>a b. t_created_at b \<le> t_created_at a) whole \<and>
      getUserTransactions tie \<lparr>gt_user_id = uid, gt_limit = None, gt_offset = None\<rparr> db =
        take 10 whole \<and>
      getUserTransactions tie \<lparr>gt_user_id = uid, gt_limit = None, gt_offset = Some off\<rparr> db =
        take 10 (drop off whole) \<and>
      getUserTransactions tie \<lparr>gt_user_id = uid, gt_limit = Some l, gt_offset = None\<rparr> db =
        take l whole) \<and>
   length (getUserTransactions tie \<lparr>gt_user_id = uid, gt_limit = None, gt_offset = Some off\<rparr> db) \<le> 10 \<and>
   length (getUserTransactions tie \<lparr>gt_user_id = uid, gt_limit = None, gt_offset = None\<rparr> db) =
     min 10 (length [t \<leftarrow> transactionsTable db. t_user_id t = uid]) \<and>
   (\<forall>r \<in> set (getUserTransactions tie \<lparr>gt_user_id = uid, gt_limit = None, gt_offset = None\<rparr> db).
      t_user_id r = uid \<and>
      (\<forall>t \<in># mset (map to_Transaction [t \<leftarrow> transactionsTable db. t_user_id t = uid]) -
               mset (getUserTransactions tie \<lparr>gt_user_id = uid, gt_limit = None, gt_offset = None\<rparr> db).
         t_created_at t \<le> t_created_at r))"
proof -
  let ?rows = "[t \<leftarrow> transactionsTable db. t_user_id t = uid]"
  define whole where "whole = map to_Transaction (order_by_desc_created_at tie ?rows)"
  have page: "getUserTransactions tie \<lparr>gt_user_id = uid, gt_limit = lmt, gt_offset = k\<rparr> db
                = take (case lmt of None \<Rightarrow> 10 | Some l \<Rightarrow> l)
                    (drop (case k of None \<Rightarrow> 0 | Some k \<Rightarrow> k) whole)" for lmt k
    by (simp add: getUserTransactions_eq whole_def)
  have perm: "mset whole = mset (map to_Transaction ?rows)"
    and sorted: "sorted_wrt (\<lambda>a b. t_created_at b \<le> t_created_at a) whole"
    using whole_history[of tie ?rows] by (simp_all add: whole_def)
  have len: "length whole = length ?rows"
    by (simp add: whole_def)
  have owner: "\<forall>t \<in> set whole. t_user_id t = uid"
    by (auto simp: whole_def to_Transaction_def)
  have rest: "mset (map to_Transaction ?rows) - mset (take 10 whole) = mset (drop 10 whole)"
  proof -
    have "mset whole = mset (take 10 whole) + mset (drop 10 whole)"
      by (metis append_take_drop_id mset_append)
    then show ?thesis
      using perm by (metis add_diff_cancel_left')
  qed
  have newest: "t_created_at t \<le> t_created_at r"
    if "r \<in> set (take 10 whole)" and "t \<in> set (drop 10 whole)" for r t
  proof -
    have "sorted_wrt (\<lambda>a b. t_created_at b \<le> t_created_at a) (take 10 whole @ drop 10 whole)"
      using sorted by simp
    then show ?thesis
      using that unfolding sorted_wrt_append by blast
  qed
  have ex: "\<exists>w. mset w = mset (map to_Transaction ?rows) \<and>
      sorted_wrt (\<lambda>a b. t_created_at b \<le> t_created_at a) w \<and>
      take 10 whole = take 10 w \<and> take 10 (drop off whole) = take 10 (drop off w) \<and>
      take l whole = take l w"
    using perm sorted by blast
  have last: "\<forall>r \<in> set (take 10 whole). t_user_id r = uid \<and>
      (\<forall>t \<in># mset (map to_Transaction ?rows) - mset (take 10 whole).
         t_created_at t \<le> t_created_at r)"
    unfolding rest using owner newest by (auto dest: in_set_takeD)
  show ?thesis
    unfolding page using ex last len by simp
qed

theorem getUserTransactions_defaults_witness:
  "length [t \<leftarrow> transactionsTable long_history_db. t_user_id t = 1] = 12 \<and>
   map t_id (getUserTransactions t_id (history_query 1 None None) long_history_db)
     = [12, 11, 10, 9, 8, 7, 6, 5, 4, 3] \<and>
   map t_id (getUserTransactions t_id (history_query 1 None (Some 10)) long_history_db) = [2, 1] \<and>
   map t_id (getUserTransactions falling_id (history_query 1 None None) tied_history_db) = [3, 1]"
  using getUserTransactions_defaults[where db = long_history_db and uid = 1 and tie = t_id
      and off = 10 and l = 3]
  by (simp add: getUserTransactions_def order_by_desc_created_at_def to_Transaction_def
      parseFloat_def test_defs)

end
